theory Spec2Isabelle
  imports Main "HOL-Library.Word"
begin

unbundle bit_operations_syntax

section \<open>The transport interface as http-server.c uses it\<close>

text \<open>
  The program is the single function \<^verbatim>\<open>main\<close> of \<^verbatim>\<open>examples/c/http-server.c\<close>. It calls
  the transport (\<^verbatim>\<open>demi_init\<close>, \<^verbatim>\<open>demi_socket\<close>, \<^verbatim>\<open>demi_bind\<close>, \<^verbatim>\<open>demi_listen\<close>,
  \<^verbatim>\<open>demi_accept\<close>, \<^verbatim>\<open>demi_wait_any\<close>, \<^verbatim>\<open>demi_pop\<close>), whose code is outside the program.
  Every value a transport call hands back (its return code and what it writes through
  its out-pointers) is an input of the model; every call the program makes is appended
  to a log, in order, with the arguments the claims speak about.
\<close>

type_synonym demi_qtoken_t = "64 word"

text \<open>
  Modelled from the spec: the enumeration of operation kinds (\<^verbatim>\<open>demi/types.h\<close>) is not
  part of the sources. The spec gives a completion the kinds Accept, Receive and
  "Other: raw kind tag"; the program compares \<^verbatim>\<open>qr_opcode\<close> with \<^verbatim>\<open>DEMI_OPC_ACCEPT\<close> and
  \<^verbatim>\<open>DEMI_OPC_POP\<close> and prints every other value as a number.
\<close>

datatype demi_opcode = DEMI_OPC_ACCEPT | DEMI_OPC_POP | DEMI_OPC_OTHER int

record demi_sgaseg_t =
  sgaseg_buf :: nat
  sgaseg_len :: "32 word"

text \<open>
  Modelled from the spec: the declaration of the scatter-gather array is not part of the
  sources. The spec calls it a sequence of (pointer, length) segments; the program
  compares \<^verbatim>\<open>sga_segs\<close> with 0 and reads \<^verbatim>\<open>sga_segs[0]\<close>. So \<open>sga_segs\<close> is \<open>None\<close> for the
  null pointer and \<open>Some segs\<close> for the segments that are there.
\<close>

record demi_sgarray_t =
  sga_segs :: "demi_sgaseg_t list option"

text \<open>
  \<^verbatim>\<open>qr_value\<close> is a union: \<open>ares_qd\<close> is what \<^verbatim>\<open>qr.qr_value.ares.qd\<close> reads and \<open>sga\<close> is what
  \<^verbatim>\<open>qr.qr_value.sga\<close> reads.
\<close>

record demi_qresult_t =
  qr_opcode :: demi_opcode
  ares_qd :: int
  sga :: demi_sgarray_t

record sockaddr_in =
  sin_family :: int
  sin_port :: "16 word"
  sin_addr :: "32 word"

definition NQTOKEN :: nat where
  "NQTOKEN = 1024"

definition EXIT_SUCCESS :: int where
  "EXIT_SUCCESS = 0"

text \<open>Constants of the socket headers, with their Linux values.\<close>

definition AF_INET :: int where
  "AF_INET = 2"

definition SOCK_STREAM :: int where
  "SOCK_STREAM = 1"

text \<open>
  \<^verbatim>\<open>htons\<close> and \<^verbatim>\<open>ntohs\<close> of \<^verbatim>\<open>arpa/inet.h\<close>: the identity on a big-endian host, the swap of
  the two bytes on a little-endian one. The program never calls them; they are here to
  compare what the program stores with what a conversion would have stored.
\<close>

datatype endianness = Little_endian | Big_endian

definition swap_bytes16 :: "16 word \<Rightarrow> 16 word" where
  "swap_bytes16 x = push_bit 8 x OR drop_bit 8 x"

definition htons :: "endianness \<Rightarrow> 16 word \<Rightarrow> 16 word" where
  "htons h x = (case h of Big_endian \<Rightarrow> x | Little_endian \<Rightarrow> swap_bytes16 x)"

definition ntohs :: "endianness \<Rightarrow> 16 word \<Rightarrow> 16 word" where
  "ntohs h x = (case h of Big_endian \<Rightarrow> x | Little_endian \<Rightarrow> swap_bytes16 x)"

section \<open>Calls, output and state\<close>

text \<open>
  The log of transport calls. \<open>Demi_accept i qd\<close> and \<open>Demi_pop i qd\<close> are the calls whose
  token pointer is \<^verbatim>\<open>&qts[i]\<close>; \<open>Demi_wait_any q n\<close> is the call that is passed the array
  with contents \<open>q\<close> and the count \<open>n\<close>. \<open>Demi_sgafree\<close> is the release of a receive buffer:
  the program has it only inside a comment (line 53), so no definition below logs it.
\<close>

datatype call =
    Demi_init
  | Demi_socket int int int
  | Demi_bind int sockaddr_in nat
  | Demi_listen int int
  | Demi_accept nat int
  | Demi_wait_any "demi_qtoken_t list" nat
  | Demi_pop nat int
  | Demi_sgafree demi_sgarray_t

text \<open>
  What \<^verbatim>\<open>fprintf(stdout, ...)\<close> is called with: \<^verbatim>\<open>"accept\n"\<close>, \<^verbatim>\<open>"recv: %*s\n"\<close> with the
  length and the pointer of segment 0, and \<^verbatim>\<open>"opcode: %d"\<close> with the kind tag. The bytes
  behind the pointer are not modelled.
\<close>

datatype printed =
    Out_accept
  | Out_recv "32 word" nat
  | Out_opcode int

text \<open>
  The locals of \<^verbatim>\<open>main\<close>, with the call log and the output. \<^verbatim>\<open>qr\<close> is left out: it is
  written by \<^verbatim>\<open>demi_wait_any\<close> before every read, so the loop body reads it from the
  completion it is given. \<^verbatim>\<open>nqts\<close> is a C \<^verbatim>\<open>int\<close> that starts at 1 and is only incremented;
  the model stops (undefined behaviour) at the first token write past the array, long
  before it could overflow, so it is a natural number.
\<close>

record state =
  saddr :: sockaddr_in
  sockqd :: int
  qts :: "demi_qtoken_t list"
  nqts :: nat
  offset :: int
  calls :: "call list"
  out :: "printed list"

text \<open>
  How an execution stands after finitely many completions: \<open>Waiting\<close> (blocked in
  \<^verbatim>\<open>demi_wait_any\<close>, which has not returned), \<open>Aborted\<close> (an \<^verbatim>\<open>assert\<close> failed: \<^verbatim>\<open>abort()\<close>,
  abnormal termination, never status 0), \<open>Undefined\<close> (the program accessed memory out of
  bounds, after which C defines nothing), \<open>Exited c\<close> (\<^verbatim>\<open>main\<close> returned \<open>c\<close>).
\<close>

datatype outcome =
    is_Waiting: Waiting state
  | is_Aborted: Aborted state
  | is_Undefined: Undefined state
  | is_Exited: Exited int state

fun state_of :: "outcome \<Rightarrow> state" where
  "state_of (Waiting s) = s"
| "state_of (Aborted s) = s"
| "state_of (Undefined s) = s"
| "state_of (Exited c s) = s"

text \<open>A statement either stops the program (\<open>Inl\<close>) or goes on with a state (\<open>Inr\<close>).\<close>

definition seq :: "outcome + state \<Rightarrow> (state \<Rightarrow> outcome + state) \<Rightarrow> outcome + state" where
  "seq r f = (case r of Inl h \<Rightarrow> Inl h | Inr s \<Rightarrow> f s)"

definition c_assert :: "bool \<Rightarrow> state \<Rightarrow> outcome + state" where
  "c_assert ok s = (if ok then Inr s else Inl (Aborted s))"

definition log_call :: "call \<Rightarrow> state \<Rightarrow> state" where
  "log_call c s = s\<lparr>calls := calls s @ [c]\<rparr>"

definition fprintf_stdout :: "printed \<Rightarrow> state \<Rightarrow> state" where
  "fprintf_stdout x s = s\<lparr>out := out s @ [x]\<rparr>"

text \<open>
  The assertions are compiled in (no \<^verbatim>\<open>NDEBUG\<close>): every transport call of the program
  stands inside one.
\<close>

section \<open>Setup (lines 20 to 39)\<close>

text \<open>What the calls before the loop hand back.\<close>

record setup_env =
  inet_pton_rc :: int
  init_rc :: int
  socket_rc :: int
  socket_qd :: int
  bind_rc :: int
  listen_rc :: int
  accept_rc :: int
  accept_qt :: demi_qtoken_t

text \<open>
  Lines 20 to 25. \<^verbatim>\<open>demi_qtoken_t qts[NQTOKEN] = {-1}\<close> sets element 0 to \<open>-1\<close> and the
  others to 0.
\<close>

definition initial_state :: state where
  "initial_state =
     \<lparr>saddr = \<lparr>sin_family = 0, sin_port = 0, sin_addr = 0\<rparr>,
      sockqd = - 1,
      qts = (- 1) # replicate (NQTOKEN - 1) 0,
      nqts = 1,
      offset = - 1,
      calls = [],
      out = []\<rparr>"

text \<open>Lines 28 to 30. \<^verbatim>\<open>inet_pton\<close> of \<^verbatim>\<open>"0.0.0.0"\<close> writes the address 0 when it succeeds.\<close>

definition prepare_addr :: "setup_env \<Rightarrow> state \<Rightarrow> outcome + state" where
  "prepare_addr e s =
     (let s1 = s\<lparr>saddr := (saddr s)\<lparr>sin_family := AF_INET\<rparr>\<rparr>;
          s2 = s1\<lparr>saddr := (saddr s1)\<lparr>sin_port := 9050\<rparr>\<rparr>
      in if inet_pton_rc e = 1
         then c_assert True (s2\<lparr>saddr := (saddr s2)\<lparr>sin_addr := 0\<rparr>\<rparr>)
         else c_assert False s2)"

text \<open>Line 33.\<close>

definition do_init :: "setup_env \<Rightarrow> state \<Rightarrow> outcome + state" where
  "do_init e s = c_assert (init_rc e = 0) (log_call Demi_init s)"

text \<open>Line 36. The descriptor is written through \<^verbatim>\<open>&sockqd\<close> when the call succeeds.\<close>

definition do_socket :: "setup_env \<Rightarrow> state \<Rightarrow> outcome + state" where
  "do_socket e s =
     (let s1 = log_call (Demi_socket AF_INET SOCK_STREAM 0) s
      in if socket_rc e = 0 then c_assert True (s1\<lparr>sockqd := socket_qd e\<rparr>)
         else c_assert False s1)"

text \<open>Line 37. The third argument stands for \<^verbatim>\<open>sizeof(struct sockaddr_in)\<close>, 16 bytes.\<close>

definition do_bind :: "setup_env \<Rightarrow> state \<Rightarrow> outcome + state" where
  "do_bind e s = c_assert (bind_rc e = 0) (log_call (Demi_bind (sockqd s) (saddr s) 16) s)"

text \<open>Line 38.\<close>

definition do_listen :: "setup_env \<Rightarrow> state \<Rightarrow> outcome + state" where
  "do_listen e s = c_assert (listen_rc e = 0) (log_call (Demi_listen (sockqd s) 16) s)"

text \<open>Line 39. The token is written through \<^verbatim>\<open>&qts[0]\<close> when the call succeeds.\<close>

definition do_accept :: "setup_env \<Rightarrow> state \<Rightarrow> outcome + state" where
  "do_accept e s =
     (let s1 = log_call (Demi_accept 0 (sockqd s)) s
      in if accept_rc e = 0 then c_assert True (s1\<lparr>qts := (qts s1)[0 := accept_qt e]\<rparr>)
         else c_assert False s1)"

definition main_setup :: "setup_env \<Rightarrow> outcome + state" where
  "main_setup e =
     seq (seq (seq (seq (seq (prepare_addr e initial_state) (do_init e)) (do_socket e))
       (do_bind e)) (do_listen e)) (do_accept e)"

section \<open>The loop (lines 41 to 57)\<close>

text \<open>
  One completion: what \<^verbatim>\<open>demi_wait_any\<close> returns and writes to \<^verbatim>\<open>qr\<close> and \<^verbatim>\<open>offset\<close>, and,
  for the iteration that calls \<^verbatim>\<open>demi_pop\<close>, what that call returns and the token it
  writes.
\<close>

record event =
  wait_rc :: int
  ev_qr :: demi_qresult_t
  ev_offset :: int
  pop_rc :: int
  pop_qt :: demi_qtoken_t

text \<open>
  Lines 45 and 46. \<^verbatim>\<open>nqts++\<close> is evaluated before the call, which gets \<^verbatim>\<open>&qts[i]\<close> for the old
  value \<open>i\<close>. A call that fails stores no token and the assertion aborts. A call that
  succeeds stores its token through the pointer: inside the array when \<open>i < NQTOKEN\<close>,
  past its end otherwise. The program has no check between the two.
\<close>

definition on_accept :: "event \<Rightarrow> state \<Rightarrow> outcome + state" where
  "on_accept ev s =
     (let s1 = fprintf_stdout Out_accept s;
          i = nqts s1;
          s2 = s1\<lparr>nqts := i + 1\<rparr>;
          s3 = log_call (Demi_pop i (ares_qd (ev_qr ev))) s2
      in if pop_rc ev \<noteq> 0 then c_assert False s3
         else if i < NQTOKEN then c_assert True (s3\<lparr>qts := (qts s3)[i := pop_qt ev]\<rparr>)
         else Inl (Undefined s3))"

text \<open>
  Lines 49 to 53. The assertion compares the segment pointer with 0; then segment 0 is
  read, whatever the number of segments. Line 53, the release of the buffer, is a
  comment, so nothing is logged for it.
\<close>

definition on_pop :: "event \<Rightarrow> state \<Rightarrow> outcome + state" where
  "on_pop ev s =
     (case sga_segs (sga (ev_qr ev)) of
        None \<Rightarrow> c_assert False s
      | Some [] \<Rightarrow> Inl (Undefined s)
      | Some (seg # rest) \<Rightarrow>
          Inr (fprintf_stdout (Out_recv (sgaseg_len seg) (sgaseg_buf seg)) s))"

text \<open>Lines 42 to 56: one iteration.\<close>

definition loop_body :: "event \<Rightarrow> state \<Rightarrow> outcome + state" where
  "loop_body ev s =
     (let s1 = log_call (Demi_wait_any (qts s) NQTOKEN) s
      in if wait_rc ev \<noteq> 0 then c_assert False s1
         else
           (let s2 = s1\<lparr>offset := ev_offset ev\<rparr>
            in case qr_opcode (ev_qr ev) of
                 DEMI_OPC_ACCEPT \<Rightarrow> on_accept ev s2
               | DEMI_OPC_POP \<Rightarrow> on_pop ev s2
               | DEMI_OPC_OTHER n \<Rightarrow> Inr (fprintf_stdout (Out_opcode n) s2)))"

text \<open>
  \<^verbatim>\<open>while (1) { ... }\<close> over the completions delivered so far. When they are used up the
  program is blocked in the next \<^verbatim>\<open>demi_wait_any\<close>. \<open>Inr\<close> is the loop left by its
  condition.
\<close>

fun main_loop :: "state \<Rightarrow> event list \<Rightarrow> outcome + state" where
  "main_loop s [] =
     (if (1::int) \<noteq> 0 then Inl (Waiting (log_call (Demi_wait_any (qts s) NQTOKEN) s))
      else Inr s)"
| "main_loop s (ev # evs) =
     (if (1::int) \<noteq> 0
      then (case loop_body ev s of Inl h \<Rightarrow> Inl h | Inr s' \<Rightarrow> main_loop s' evs)
      else Inr s)"

text \<open>Lines 18 to 60.\<close>

definition main :: "setup_env \<Rightarrow> event list \<Rightarrow> outcome" where
  "main e evs =
     (case seq (main_setup e) (\<lambda>s. main_loop s evs) of
        Inl h \<Rightarrow> h
      | Inr s \<Rightarrow> Exited EXIT_SUCCESS s)"

section \<open>Concrete inputs\<close>

definition ok_env :: setup_env where
  "ok_env = \<lparr>inet_pton_rc = 1, init_rc = 0, socket_rc = 0, socket_qd = 3, bind_rc = 0,
     listen_rc = 0, accept_rc = 0, accept_qt = 7\<rparr>"

definition no_sga :: demi_sgarray_t where
  "no_sga = \<lparr>sga_segs = None\<rparr>"

text \<open>An accept completion for the token at index 0, with a \<^verbatim>\<open>demi_pop\<close> that succeeds.\<close>

definition accept_ev :: event where
  "accept_ev = \<lparr>wait_rc = 0, ev_qr = \<lparr>qr_opcode = DEMI_OPC_ACCEPT, ares_qd = 5, sga = no_sga\<rparr>,
     ev_offset = 0, pop_rc = 0, pop_qt = 8\<rparr>"

text \<open>A receive completion for the token at index 1, with one segment of 5 bytes.\<close>

definition recv_ev :: event where
  "recv_ev = \<lparr>wait_rc = 0,
     ev_qr = \<lparr>qr_opcode = DEMI_OPC_POP, ares_qd = 0,
       sga = \<lparr>sga_segs = Some [\<lparr>sgaseg_buf = 4096, sgaseg_len = 5\<rparr>]\<rparr>\<rparr>,
     ev_offset = 1, pop_rc = 0, pop_qt = 0\<rparr>"

text \<open>Receive completions with no segments: a null segment pointer, and zero segments.\<close>

definition recv_null_ev :: event where
  "recv_null_ev = \<lparr>wait_rc = 0, ev_qr = \<lparr>qr_opcode = DEMI_OPC_POP, ares_qd = 0, sga = no_sga\<rparr>,
     ev_offset = 1, pop_rc = 0, pop_qt = 0\<rparr>"

definition recv_empty_ev :: event where
  "recv_empty_ev = \<lparr>wait_rc = 0,
     ev_qr = \<lparr>qr_opcode = DEMI_OPC_POP, ares_qd = 0, sga = \<lparr>sga_segs = Some []\<rparr>\<rparr>,
     ev_offset = 1, pop_rc = 0, pop_qt = 0\<rparr>"

text \<open>A completion of a kind the program does not know, with tag 9.\<close>

definition other_ev :: event where
  "other_ev = \<lparr>wait_rc = 0, ev_qr = \<lparr>qr_opcode = DEMI_OPC_OTHER 9, ares_qd = 0, sga = no_sga\<rparr>,
     ev_offset = 0, pop_rc = 0, pop_qt = 0\<rparr>"

text \<open>The state in which the loop is entered when the setup calls hand back \<open>ok_env\<close>.\<close>

definition loop_entry :: state where
  "loop_entry =
     \<lparr>saddr = \<lparr>sin_family = AF_INET, sin_port = 9050, sin_addr = 0\<rparr>,
      sockqd = 3,
      qts = 7 # replicate 1023 0,
      nqts = 1,
      offset = - 1,
      calls = [Demi_init, Demi_socket AF_INET SOCK_STREAM 0,
        Demi_bind 3 \<lparr>sin_family = AF_INET, sin_port = 9050, sin_addr = 0\<rparr> 16,
        Demi_listen 3 16, Demi_accept 0 3],
      out = []\<rparr>"

section \<open>Counting in the logs\<close>

fun is_accept_call :: "call \<Rightarrow> bool" where
  "is_accept_call (Demi_accept i qd) = True"
| "is_accept_call c = False"

fun is_pop_call :: "call \<Rightarrow> bool" where
  "is_pop_call (Demi_pop i qd) = True"
| "is_pop_call c = False"

fun is_wait_call :: "call \<Rightarrow> bool" where
  "is_wait_call (Demi_wait_any q n) = True"
| "is_wait_call c = False"

fun is_release_call :: "call \<Rightarrow> bool" where
  "is_release_call (Demi_sgafree b) = True"
| "is_release_call c = False"

fun is_recv_output :: "printed \<Rightarrow> bool" where
  "is_recv_output (Out_recv n p) = True"
| "is_recv_output x = False"

definition release_count :: "state \<Rightarrow> nat" where
  "release_count s = length (filter is_release_call (calls s))"

definition receive_count :: "state \<Rightarrow> nat" where
  "receive_count s = length (filter is_recv_output (out s))"

text \<open>The calls made between an earlier state and a later one.\<close>

definition issued :: "state \<Rightarrow> state \<Rightarrow> call list" where
  "issued s s' = drop (length (calls s)) (calls s')"

text \<open>The state an iteration ends in, whether it goes on or stops.\<close>

definition after_body :: "event \<Rightarrow> state \<Rightarrow> state" where
  "after_body ev s = (case loop_body ev s of Inl h \<Rightarrow> state_of h | Inr s' \<Rightarrow> s')"

section \<open>The transport's side of a token\<close>






section \<open>Basic facts\<close>

lemmas stmt_defs = seq_def c_assert_def log_call_def fprintf_stdout_def

lemmas setup_defs = main_setup_def prepare_addr_def do_init_def do_socket_def do_bind_def
  do_listen_def do_accept_def initial_state_def

lemmas body_defs = loop_body_def on_accept_def on_pop_def

lemma setup_ok_env: "main_setup ok_env = Inr loop_entry"
  by (simp add: setup_defs stmt_defs ok_env_def loop_entry_def NQTOKEN_def)

lemma main_ok_env:
  "main ok_env evs =
     (case main_loop loop_entry evs of Inl h \<Rightarrow> h | Inr s \<Rightarrow> Exited EXIT_SUCCESS s)"
  by (simp add: main_def setup_ok_env seq_def)

lemmas run_defs = main_ok_env loop_entry_def body_defs stmt_defs NQTOKEN_def

text \<open>The setup stops only by a failed assertion, and has called no wait by then.\<close>

lemma main_setup_aborts:
  "main_setup e = Inl h \<Longrightarrow> is_Aborted h \<and> filter is_wait_call (calls (state_of h)) = []"
  by (auto simp add: setup_defs stmt_defs Let_def split: if_splits)

text \<open>An iteration that stops the program does not stop it by a return from \<^verbatim>\<open>main\<close>.\<close>

lemma loop_body_not_exited: "loop_body ev s = Inl h \<Longrightarrow> \<not> is_Exited h"
  by (auto simp add: body_defs stmt_defs Let_def
      split: if_splits demi_opcode.splits option.splits list.splits)

lemma main_loop_stops: "\<exists>h. main_loop s evs = Inl h \<and> \<not> is_Exited h"
proof (induction evs arbitrary: s)
  case Nil
  show ?case by simp
next
  case (Cons ev evs)
  show ?case
  proof (cases "loop_body ev s")
    case (Inl h)
    then show ?thesis using loop_body_not_exited[OF Inl] by simp
  next
    case (Inr s')
    then show ?thesis using Cons.IH[of s'] by simp
  qed
qed

text \<open>
  In the state an iteration ends in, the tokens stored below \<open>nqts\<close> are where they were,
  \<open>nqts\<close> has not decreased, the array has kept its length, and no release has been
  logged.
\<close>

lemma after_body_keeps_tokens:
  "i < nqts s \<Longrightarrow> qts (after_body ev s) ! i = qts s ! i \<and> nqts s \<le> nqts (after_body ev s)"
  by (auto simp add: after_body_def body_defs stmt_defs Let_def
      split: if_splits demi_opcode.splits option.splits list.splits)

lemma after_body_length_qts: "length (qts (after_body ev s)) = length (qts s)"
  by (auto simp add: after_body_def body_defs stmt_defs Let_def
      split: if_splits demi_opcode.splits option.splits list.splits)

lemma after_body_release_count: "release_count (after_body ev s) = release_count s"
  by (auto simp add: after_body_def body_defs stmt_defs Let_def release_count_def
      split: if_splits demi_opcode.splits option.splits list.splits)

lemma after_body_Inr: "loop_body ev s = Inr s' \<Longrightarrow> after_body ev s = s'"
  by (simp add: after_body_def)

lemma after_body_Inl: "loop_body ev s = Inl h \<Longrightarrow> after_body ev s = state_of h"
  by (simp add: after_body_def)

lemma main_loop_keeps_tokens:
  "main_loop s evs = Inl h \<Longrightarrow> i < nqts s \<Longrightarrow>
     qts (state_of h) ! i = qts s ! i \<and> nqts s \<le> nqts (state_of h)"
proof (induction evs arbitrary: s)
  case Nil
  then show ?case by (auto simp add: log_call_def)
next
  case (Cons ev evs)
  have k: "qts (after_body ev s) ! i = qts s ! i \<and> nqts s \<le> nqts (after_body ev s)"
    using after_body_keeps_tokens[OF Cons.prems(2)] .
  show ?case
  proof (cases "loop_body ev s")
    case (Inl h')
    then show ?thesis using Cons.prems(1) k after_body_Inl[OF Inl] by simp
  next
    case (Inr s')
    have "main_loop s' evs = Inl h" using Cons.prems(1) Inr by simp
    from Cons.IH[OF this] k Cons.prems(2) after_body_Inr[OF Inr] show ?thesis by simp
  qed
qed

lemma main_loop_waiting_last:
  "main_loop s evs = Inl (Waiting s') \<Longrightarrow> last (calls s') = Demi_wait_any (qts s') NQTOKEN"
proof (induction evs arbitrary: s)
  case Nil
  then show ?case by (auto simp add: log_call_def)
next
  case (Cons ev evs)
  show ?case
  proof (cases "loop_body ev s")
    case (Inl h')
    then have "loop_body ev s = Inl (Waiting s')" using Cons.prems by simp
    then show ?thesis
      by (auto simp add: body_defs stmt_defs Let_def
          split: if_splits demi_opcode.splits option.splits list.splits)
  next
    case (Inr s1)
    then show ?thesis using Cons by simp
  qed
qed

lemma main_loop_release_count:
  "main_loop s evs = Inl h \<Longrightarrow> release_count (state_of h) = release_count s"
proof (induction evs arbitrary: s)
  case Nil
  then show ?case by (auto simp add: log_call_def release_count_def)
next
  case (Cons ev evs)
  show ?case
  proof (cases "loop_body ev s")
    case (Inl h')
    then show ?thesis
      using Cons.prems after_body_release_count[of ev s] after_body_Inl[OF Inl] by simp
  next
    case (Inr s')
    have "main_loop s' evs = Inl h" using Cons.prems Inr by simp
    from Cons.IH[OF this] after_body_release_count[of ev s] after_body_Inr[OF Inr]
    show ?thesis by simp
  qed
qed

text \<open>No execution ever calls the release of a receive buffer.\<close>

lemma main_never_releases: "release_count (state_of (main e evs)) = 0"
proof (cases "main_setup e")
  case (Inl h)
  then have "release_count (state_of h) = 0"
    by (auto simp add: setup_defs stmt_defs Let_def release_count_def split: if_splits)
  then show ?thesis using Inl by (simp add: main_def seq_def)
next
  case (Inr s0)
  then have z: "release_count s0 = 0"
    by (auto simp add: setup_defs stmt_defs Let_def release_count_def split: if_splits)
  obtain h where h: "main_loop s0 evs = Inl h" using main_loop_stops[of s0 evs] by blast
  from main_loop_release_count[OF h] z h Inr show ?thesis by (simp add: main_def seq_def)
qed





section \<open>The claims\<close>

text \<open>
  Claim C1 (buffer released exactly once per receive), evaluated on the program: after
  an accept completion and a receive completion with one segment of 5 bytes, the
  program has printed one received payload and has called the release zero times. The
  release call is line 53, inside a comment.
\<close>

theorem receive_buffer_never_released:
  "receive_count (state_of (main ok_env [accept_ev, recv_ev])) = 1 \<and>
   release_count (state_of (main ok_env [accept_ev, recv_ev])) = 0"
  by (simp add: run_defs accept_ev_def recv_ev_def receive_count_def release_count_def)




text \<open>
  Claim C3 as stated (the accept handler issues a receive on the new connection and a
  fresh accept on the listening endpoint) fails: after the accept of line 39 has
  completed and been dispatched, the only accept call in the whole log is that of
  line 39.
\<close>

theorem accept_not_rearmed_counterexample:
  "filter is_accept_call (calls (state_of (main ok_env [accept_ev]))) = [Demi_accept 0 3]"
  by (simp add: run_defs accept_ev_def)

text \<open>
  Claim C3, amended: for every accept completion dispatched while the array has room
  (\<open>nqts < NQTOKEN\<close>) and whose \<^verbatim>\<open>demi_pop\<close> succeeds, the handler prints "accept", issues a
  receive on the new connection handle and stores its token at \<^verbatim>\<open>qts[nqts]\<close>, incrementing
  \<open>nqts\<close>; the wait and that receive are the only calls of the iteration, so no accept is
  issued by it.
\<close>

theorem accept_arms_receive_only:
  assumes "wait_rc ev = 0" "qr_opcode (ev_qr ev) = DEMI_OPC_ACCEPT" "pop_rc ev = 0"
    "nqts s < NQTOKEN" "length (qts s) = NQTOKEN"
  shows "\<exists>s'. loop_body ev s = Inr s' \<and>
     issued s s' = [Demi_wait_any (qts s) NQTOKEN, Demi_pop (nqts s) (ares_qd (ev_qr ev))] \<and>
     filter is_accept_call (issued s s') = [] \<and>
     qts s' = (qts s)[nqts s := pop_qt ev] \<and> qts s' ! nqts s = pop_qt ev \<and>
     nqts s' = nqts s + 1 \<and> out s' = out s @ [Out_accept]"
  using assms by (simp add: body_defs stmt_defs issued_def Let_def)

text \<open>The amended claim C3 at the first accept completion after a successful setup.\<close>

theorem accept_arms_receive_only_witness:
  "wait_rc accept_ev = 0 \<and> qr_opcode (ev_qr accept_ev) = DEMI_OPC_ACCEPT \<and>
   pop_rc accept_ev = 0 \<and> nqts loop_entry < NQTOKEN \<and> length (qts loop_entry) = NQTOKEN \<and>
   (\<exists>s'. loop_body accept_ev loop_entry = Inr s' \<and>
      issued loop_entry s' = [Demi_wait_any (qts loop_entry) NQTOKEN, Demi_pop 1 5] \<and>
      filter is_accept_call (issued loop_entry s') = [] \<and>
      qts s' ! 1 = 8 \<and> nqts s' = 2 \<and> out s' = [Out_accept])"
proof -
  have h: "wait_rc accept_ev = 0" "qr_opcode (ev_qr accept_ev) = DEMI_OPC_ACCEPT"
    "pop_rc accept_ev = 0" "nqts loop_entry < NQTOKEN" "length (qts loop_entry) = NQTOKEN"
    by (simp_all add: accept_ev_def loop_entry_def NQTOKEN_def)
  have v: "nqts loop_entry = 1" "ares_qd (ev_qr accept_ev) = 5" "pop_qt accept_ev = 8"
    "out loop_entry = []"
    by (simp_all add: accept_ev_def loop_entry_def)
  from accept_arms_receive_only[OF h] obtain s' where
    "loop_body accept_ev loop_entry = Inr s'"
    "issued loop_entry s' = [Demi_wait_any (qts loop_entry) NQTOKEN, Demi_pop 1 5]"
    "filter is_accept_call (issued loop_entry s') = []"
    "qts s' ! 1 = 8" "nqts s' = 2" "out s' = [Out_accept]"
    unfolding v by auto
  then show ?thesis using h by blast
qed

text \<open>
  Claim C4 as stated (after a receive completion the dispatcher re-issues a receive on
  the same connection and registers the new token) fails: after the receive on
  connection 5 has completed and its payload has been printed, the only receive call in
  the log is the one the accept handler issued, and \<open>nqts\<close> is still 2.
\<close>

theorem receive_not_rearmed_counterexample:
  "filter is_pop_call (calls (state_of (main ok_env [accept_ev, recv_ev]))) = [Demi_pop 1 5] \<and>
   out (state_of (main ok_env [accept_ev, recv_ev])) = [Out_accept, Out_recv 5 4096] \<and>
   nqts (state_of (main ok_env [accept_ev, recv_ev])) = 2"
  by (simp add: run_defs accept_ev_def recv_ev_def)

text \<open>
  Claim C4, amended: for every receive completion with a non-null segment pointer and at
  least one segment, the dispatcher prints length and pointer of segment 0 and issues no
  receive: the wait is the only call of the iteration, and the token array and \<open>nqts\<close>
  are unchanged (a one-shot read).
\<close>

theorem receive_is_one_shot:
  assumes "wait_rc ev = 0" "qr_opcode (ev_qr ev) = DEMI_OPC_POP"
    "sga_segs (sga (ev_qr ev)) = Some (seg # rest)"
  shows "\<exists>s'. loop_body ev s = Inr s' \<and>
     issued s s' = [Demi_wait_any (qts s) NQTOKEN] \<and>
     filter is_pop_call (issued s s') = [] \<and>
     qts s' = qts s \<and> nqts s' = nqts s \<and>
     out s' = out s @ [Out_recv (sgaseg_len seg) (sgaseg_buf seg)]"
  using assms by (simp add: body_defs stmt_defs issued_def Let_def)

text \<open>The amended claim C4 at a receive completion with one segment of 5 bytes.\<close>

theorem receive_is_one_shot_witness:
  "wait_rc recv_ev = 0 \<and> qr_opcode (ev_qr recv_ev) = DEMI_OPC_POP \<and>
   sga_segs (sga (ev_qr recv_ev)) = Some [\<lparr>sgaseg_buf = 4096, sgaseg_len = 5\<rparr>] \<and>
   (\<exists>s'. loop_body recv_ev loop_entry = Inr s' \<and>
      issued loop_entry s' = [Demi_wait_any (qts loop_entry) NQTOKEN] \<and>
      filter is_pop_call (issued loop_entry s') = [] \<and>
      qts s' = qts loop_entry \<and> nqts s' = nqts loop_entry \<and>
      out s' = out loop_entry @ [Out_recv 5 4096])"
proof -
  have h: "wait_rc recv_ev = 0" "qr_opcode (ev_qr recv_ev) = DEMI_OPC_POP"
    "sga_segs (sga (ev_qr recv_ev)) = Some [\<lparr>sgaseg_buf = 4096, sgaseg_len = 5\<rparr>]"
    by (simp_all add: recv_ev_def)
  show ?thesis using h receive_is_one_shot[OF h, of loop_entry] by simp
qed

text \<open>
  Claim C5 as stated (a receive completion with an empty segment list is failed with
  MalformedPayload, the list is not indexed, the loop goes on) fails: with a null
  segment pointer the assertion of line 49 stops the program, and the completion after
  it is never dispatched; with a non-null pointer and zero segments segment 0 is read all
  the same.
\<close>

theorem empty_segments_counterexample:
  "is_Aborted (main ok_env [accept_ev, recv_null_ev, other_ev]) \<and>
   out (state_of (main ok_env [accept_ev, recv_null_ev, other_ev])) = [Out_accept] \<and>
   is_Undefined (main ok_env [accept_ev, recv_empty_ev, other_ev])"
  by (simp add: run_defs accept_ev_def recv_null_ev_def recv_empty_ev_def no_sga_def)

text \<open>
  Claim C5, amended: for every receive completion whose segment pointer is null, the
  assertion of line 49 fails and the program is aborted: nothing is printed, no segment
  is read, and the loop ends there whatever completions would follow.
\<close>

theorem null_segments_abort:
  assumes "wait_rc ev = 0" "qr_opcode (ev_qr ev) = DEMI_OPC_POP"
    "sga_segs (sga (ev_qr ev)) = None"
  shows "\<exists>s'. main_loop s (ev # evs) = Inl (Aborted s') \<and>
     issued s s' = [Demi_wait_any (qts s) NQTOKEN] \<and> out s' = out s"
  using assms by (simp add: body_defs stmt_defs issued_def Let_def)

text \<open>The amended claim C5 at a receive completion with a null segment pointer.\<close>

theorem null_segments_abort_witness:
  "wait_rc recv_null_ev = 0 \<and> qr_opcode (ev_qr recv_null_ev) = DEMI_OPC_POP \<and>
   sga_segs (sga (ev_qr recv_null_ev)) = None \<and>
   (\<exists>s'. main_loop loop_entry [recv_null_ev, other_ev] = Inl (Aborted s') \<and>
      issued loop_entry s' = [Demi_wait_any (qts loop_entry) NQTOKEN] \<and>
      out s' = out loop_entry)"
proof -
  have h: "wait_rc recv_null_ev = 0" "qr_opcode (ev_qr recv_null_ev) = DEMI_OPC_POP"
    "sga_segs (sga (ev_qr recv_null_ev)) = None"
    by (simp_all add: recv_null_ev_def no_sga_def)
  show ?thesis using h null_segments_abort[OF h, of loop_entry "[other_ev]"] by simp
qed

text \<open>
  Claim C6 as stated (a token whose completion has been reported at some index is removed
  from the token set and never passed to a later wait) fails: the completion of the
  accept token 7 is reported at index 0, and the next \<^verbatim>\<open>demi_wait_any\<close> is passed an array
  that still holds token 7 at index 0.
\<close>

theorem completed_token_kept_counterexample:
  "offset (state_of (main ok_env [accept_ev])) = 0 \<and>
   qts (state_of (main ok_env [accept_ev])) ! 0 = 7 \<and>
   last (calls (state_of (main ok_env [accept_ev]))) =
     Demi_wait_any (qts (state_of (main ok_env [accept_ev]))) NQTOKEN"
  by (simp add: run_defs accept_ev_def)

text \<open>
  Claim C6, amended: no token is ever removed. Whatever completions are dispatched, every
  token stored below \<open>nqts\<close> stays at its index and \<open>nqts\<close> does not decrease; and when
  the program is blocked in \<^verbatim>\<open>demi_wait_any\<close>, that call has been passed the whole array,
  with the count \<open>NQTOKEN\<close>.
\<close>

theorem tokens_never_removed:
  assumes "main_loop s evs = Inl h" "i < nqts s"
  shows "qts (state_of h) ! i = qts s ! i \<and> nqts s \<le> nqts (state_of h) \<and>
     (is_Waiting h \<longrightarrow> last (calls (state_of h)) = Demi_wait_any (qts (state_of h)) NQTOKEN)"
proof -
  have "last (calls (state_of h)) = Demi_wait_any (qts (state_of h)) NQTOKEN" if "is_Waiting h"
  proof -
    from that obtain s' where "h = Waiting s'" by (cases h) auto
    then show ?thesis using main_loop_waiting_last[of s evs s'] assms(1) by simp
  qed
  then show ?thesis using main_loop_keeps_tokens[OF assms] by simp
qed

text \<open>
  The amended claim C6 on the run of an accept, a receive and an unknown completion: the
  accept token is still at index 0.
\<close>

theorem tokens_never_removed_witness:
  "main_loop loop_entry [accept_ev, recv_ev, other_ev] =
     Inl (main ok_env [accept_ev, recv_ev, other_ev]) \<and>
   0 < nqts loop_entry \<and>
   qts (state_of (main ok_env [accept_ev, recv_ev, other_ev])) ! 0 = 7 \<and>
   nqts loop_entry \<le> nqts (state_of (main ok_env [accept_ev, recv_ev, other_ev])) \<and>
   is_Waiting (main ok_env [accept_ev, recv_ev, other_ev]) \<and>
   last (calls (state_of (main ok_env [accept_ev, recv_ev, other_ev]))) =
     Demi_wait_any (qts (state_of (main ok_env [accept_ev, recv_ev, other_ev]))) NQTOKEN"
proof -
  let ?evs = "[accept_ev, recv_ev, other_ev]"
  obtain h where h: "main_loop loop_entry ?evs = Inl h"
    using main_loop_stops[of loop_entry ?evs] by blast
  then have m: "main ok_env ?evs = h" by (simp add: main_ok_env)
  have n: "0 < nqts loop_entry" "qts loop_entry ! 0 = 7" by (simp_all add: loop_entry_def)
  have w: "is_Waiting (main ok_env ?evs)"
    by (simp add: run_defs accept_ev_def recv_ev_def other_ev_def no_sga_def)
  show ?thesis using tokens_never_removed[OF h n(1)] h m n w by simp
qed

text \<open>
  Claim C7: for every completion whose kind is neither Accept nor Receive, the dispatcher
  prints the raw kind tag and the loop goes on with its next iteration. The iteration
  does not stop the program, prints "opcode: n", makes no call but the wait and leaves
  the token array alone. Then the next iteration runs: with no further completion the
  program is blocked in a second \<^verbatim>\<open>demi_wait_any\<close> on the same array, and a further
  completion is dispatched by the loop body in the state the first iteration left.
\<close>

theorem unrecognized_kind_continues:
  assumes "wait_rc ev = 0" "qr_opcode (ev_qr ev) = DEMI_OPC_OTHER n"
  shows "\<exists>s' s''. loop_body ev s = Inr s' \<and> out s' = out s @ [Out_opcode n] \<and>
     qts s' = qts s \<and> nqts s' = nqts s \<and>
     calls s' = calls s @ [Demi_wait_any (qts s) NQTOKEN] \<and>
     main_loop s (ev # evs) = main_loop s' evs \<and>
     main_loop s [ev] = Inl (Waiting s'') \<and>
     calls s'' = calls s @ [Demi_wait_any (qts s) NQTOKEN, Demi_wait_any (qts s) NQTOKEN] \<and>
     out s'' = out s @ [Out_opcode n] \<and> qts s'' = qts s \<and> nqts s'' = nqts s \<and>
     main_loop s (ev # ev2 # evs) =
       (case loop_body ev2 s' of Inl h \<Rightarrow> Inl h | Inr s2 \<Rightarrow> main_loop s2 evs)"
  using assms by (simp add: body_defs stmt_defs)

text \<open>
  Claim C7 at a completion with the kind tag 9: alone, it leaves the program blocked in
  the second wait; followed by an accept completion, that one is dispatched (a receive is
  issued on connection 5); and two of them in a row are both printed.
\<close>

theorem unrecognized_kind_continues_witness:
  "wait_rc other_ev = 0 \<and> qr_opcode (ev_qr other_ev) = DEMI_OPC_OTHER 9 \<and>
   (\<exists>s' s''. loop_body other_ev loop_entry = Inr s' \<and>
      out s' = out loop_entry @ [Out_opcode 9] \<and>
      qts s' = qts loop_entry \<and> nqts s' = nqts loop_entry \<and>
      calls s' = calls loop_entry @ [Demi_wait_any (qts loop_entry) NQTOKEN] \<and>
      main_loop loop_entry [other_ev] = main_loop s' [] \<and>
      main_loop loop_entry [other_ev] = Inl (Waiting s'') \<and>
      calls s'' = calls loop_entry @
        [Demi_wait_any (qts loop_entry) NQTOKEN, Demi_wait_any (qts loop_entry) NQTOKEN] \<and>
      out s'' = out loop_entry @ [Out_opcode 9] \<and>
      qts s'' = qts loop_entry \<and> nqts s'' = nqts loop_entry \<and>
      main_loop loop_entry [other_ev, accept_ev] =
        (case loop_body accept_ev s' of Inl h \<Rightarrow> Inl h | Inr s2 \<Rightarrow> main_loop s2 [])) \<and>
   is_Waiting (main ok_env [other_ev, accept_ev]) \<and>
   out (state_of (main ok_env [other_ev, accept_ev])) = [Out_opcode 9, Out_accept] \<and>
   filter is_pop_call (calls (state_of (main ok_env [other_ev, accept_ev]))) = [Demi_pop 1 5] \<and>
   is_Waiting (main ok_env [other_ev, other_ev]) \<and>
   out (state_of (main ok_env [other_ev, other_ev])) = [Out_opcode 9, Out_opcode 9]"
proof -
  have h: "wait_rc other_ev = 0" "qr_opcode (ev_qr other_ev) = DEMI_OPC_OTHER 9"
    by (simp_all add: other_ev_def)
  have r: "is_Waiting (main ok_env [other_ev, accept_ev])"
    "out (state_of (main ok_env [other_ev, accept_ev])) = [Out_opcode 9, Out_accept]"
    "filter is_pop_call (calls (state_of (main ok_env [other_ev, accept_ev]))) = [Demi_pop 1 5]"
    "is_Waiting (main ok_env [other_ev, other_ev])"
    "out (state_of (main ok_env [other_ev, other_ev])) = [Out_opcode 9, Out_opcode 9]"
    by (simp_all add: run_defs other_ev_def accept_ev_def no_sga_def)
  show ?thesis
    by (intro conjI h r unrecognized_kind_continues[OF h, of loop_entry "[]" accept_ev])
qed

text \<open>
  Claim C8: for every failure while establishing the listening endpoint (socket
  creation, bind or listen returning non-zero), the program is terminated by a failed
  assertion, which is an abnormal termination and not the status 0, before the loop is
  entered: no wait has been called, and the completions that would follow play no part.
\<close>

theorem setup_failure_aborts:
  assumes "socket_rc e \<noteq> 0 \<or> bind_rc e \<noteq> 0 \<or> listen_rc e \<noteq> 0"
  shows "is_Aborted (main e evs) \<and>
     filter is_wait_call (calls (state_of (main e evs))) = [] \<and>
     main_setup e = Inl (main e evs)"
proof -
  have "\<exists>h. main_setup e = Inl h"
    using assms by (auto simp add: setup_defs stmt_defs Let_def)
  then obtain h where h: "main_setup e = Inl h" by blast
  then have "main e evs = h" by (simp add: main_def seq_def)
  then show ?thesis using h main_setup_aborts[OF h] by simp
qed

text \<open>Claim C8 at a failing bind, with an accept completion that is never waited for.\<close>

theorem setup_failure_aborts_witness:
  "bind_rc (ok_env\<lparr>bind_rc := - 1\<rparr>) = - 1 \<and>
   is_Aborted (main (ok_env\<lparr>bind_rc := - 1\<rparr>) [accept_ev]) \<and>
   filter is_wait_call (calls (state_of (main (ok_env\<lparr>bind_rc := - 1\<rparr>) [accept_ev]))) = [] \<and>
   main_setup (ok_env\<lparr>bind_rc := - 1\<rparr>) = Inl (main (ok_env\<lparr>bind_rc := - 1\<rparr>) [accept_ev])"
proof -
  have h: "socket_rc (ok_env\<lparr>bind_rc := - 1\<rparr>) \<noteq> 0 \<or> bind_rc (ok_env\<lparr>bind_rc := - 1\<rparr>) \<noteq> 0 \<or>
      listen_rc (ok_env\<lparr>bind_rc := - 1\<rparr>) \<noteq> 0"
    by simp
  show ?thesis using setup_failure_aborts[OF h, of "[accept_ev]"] by simp
qed

text \<open>
  Claim C9: the program stores the literal 9050 in the port field of the socket address
  with no host-to-network conversion. Whenever the setup succeeds, the address passed to
  \<^verbatim>\<open>demi_bind\<close> has the port field 9050 in host byte order; on a little-endian host that is
  not \<^verbatim>\<open>htons(9050)\<close> but the field of port 23075, and only on a big-endian host is it the
  same as \<^verbatim>\<open>htons(9050)\<close>.
\<close>

theorem port_stored_without_htons:
  assumes "main_setup e = Inr s"
  shows "sin_port (saddr s) = 9050 \<and>
     Demi_bind (socket_qd e) \<lparr>sin_family = AF_INET, sin_port = 9050, sin_addr = 0\<rparr> 16
       \<in> set (calls s) \<and>
     sin_port (saddr s) \<noteq> htons Little_endian 9050 \<and>
     ntohs Little_endian (sin_port (saddr s)) = 23075 \<and>
     sin_port (saddr s) = htons Big_endian 9050"
  using assms
  by (auto simp add: setup_defs stmt_defs Let_def htons_def ntohs_def swap_bytes16_def
      split: if_splits)

text \<open>Claim C9 at a setup in which every call succeeds.\<close>

theorem port_stored_without_htons_witness:
  "main_setup ok_env = Inr loop_entry \<and>
   sin_port (saddr loop_entry) = 9050 \<and>
   Demi_bind (socket_qd ok_env) \<lparr>sin_family = AF_INET, sin_port = 9050, sin_addr = 0\<rparr> 16
     \<in> set (calls loop_entry) \<and>
   sin_port (saddr loop_entry) \<noteq> htons Little_endian 9050 \<and>
   ntohs Little_endian (sin_port (saddr loop_entry)) = 23075 \<and>
   sin_port (saddr loop_entry) = htons Big_endian 9050"
  using port_stored_without_htons[OF setup_ok_env] setup_ok_env by blast

text \<open>
  Claim C10: once the loop is entered it is never left by its condition, so the
  \<^verbatim>\<open>return (EXIT_SUCCESS)\<close> after it is never reached. After any completions whatever, the
  program is blocked in the wait, or has been stopped by a failed assertion, or has left
  defined behaviour by an out-of-bounds access; \<^verbatim>\<open>main\<close> has not returned.
\<close>

theorem loop_never_exits:
  "isl (main_loop s evs) \<and> \<not> is_Exited (main e evs) \<and>
   (is_Waiting (main e evs) \<or> is_Aborted (main e evs) \<or> is_Undefined (main e evs))"
proof -
  have a: "isl (main_loop s evs)" using main_loop_stops[of s evs] by auto
  have b: "\<not> is_Exited (main e evs)"
  proof (cases "main_setup e")
    case (Inl h)
    then show ?thesis
      using main_setup_aborts[OF Inl] by (cases h) (auto simp add: main_def seq_def)
  next
    case (Inr s0)
    then show ?thesis
      using main_loop_stops[of s0 evs] by (auto simp add: main_def seq_def)
  qed
  from b have "is_Waiting (main e evs) \<or> is_Aborted (main e evs) \<or> is_Undefined (main e evs)"
    by (cases "main e evs") auto
  with a b show ?thesis by simp
qed

end
